theory Spec2Isabelle
  imports Main "HOL-Library.Sublist" "HOL-Library.AList"
begin

section \<open>JavaScript strings and the lodash helpers of server.js\<close>

text \<open>
  A JavaScript string is modelled as a \<open>string\<close> (the list of its code units).
  \<open>split s c\<close> is \<^verbatim>\<open>s.split("/")\<close> for the one-character separator the handler
  uses: the pieces between the separators, and always at least one piece
  (\<^verbatim>\<open>"".split("/")\<close> is \<^verbatim>\<open>[""]\<close>).
\<close>

fun split :: "string \<Rightarrow> char \<Rightarrow> string list" where
  "split [] c = [[]]"
| "split (x # xs) c =
     (if x = c then [] # split xs c
      else (case split xs c of
              [] \<Rightarrow> [[x]]
            | piece # pieces \<Rightarrow> (x # piece) # pieces))"

text \<open>
  \<^verbatim>\<open>Array.prototype.join\<close> with a one-character separator, the inverse of \<open>split\<close>
  (the handler does not call it; it says what \<open>split\<close> computes).
\<close>

fun join :: "string list \<Rightarrow> char \<Rightarrow> string" where
  "join [] c = []"
| "join [p] c = p"
| "join (p # q # ps) c = p @ c # join (q # ps) c"

text \<open>
  \<^verbatim>\<open>Array.prototype.pop\<close> gives the last element of the array, and \<^verbatim>\<open>undefined\<close>
  (here \<open>None\<close>) on the empty array.
\<close>

definition pop :: "'a list \<Rightarrow> 'a option" where
  "pop xs = (case xs of [] \<Rightarrow> None | _ # _ \<Rightarrow> Some (last xs))"

text \<open>\<^verbatim>\<open>_.startsWith(string, target)\<close>: the string begins with the target.\<close>

definition startsWith :: "string \<Rightarrow> string \<Rightarrow> bool" where
  "startsWith s target = (take (length target) s = target)"

text \<open>
  \<^verbatim>\<open>String.prototype.indexOf(searchString)\<close>: the least position at which the search
  string occurs, and \<open>-1\<close> when it occurs nowhere. The empty search string occurs at 0.
\<close>

fun indexOf :: "string \<Rightarrow> string \<Rightarrow> int" where
  "indexOf [] m = (if m = [] then 0 else - 1)"
| "indexOf (x # xs) m =
     (if startsWith (x # xs) m then 0
      else (let i = indexOf xs m in if i = - 1 then - 1 else i + 1))"

text \<open>
  A number turned into a string (in a template literal \<^verbatim>\<open>`${size}`\<close>, or in a message):
  its decimal digits, after a minus sign when it is negative.
\<close>

fun decimal :: "nat \<Rightarrow> string" where
  "decimal n =
     (if n < 10 then [''0123456789'' ! n]
      else decimal (n div 10) @ [''0123456789'' ! (n mod 10)])"

declare decimal.simps [simp del]

definition number_text :: "int \<Rightarrow> string" where
  "number_text n = (if n < 0 then ''-'' @ decimal (nat (- n)) else decimal (nat n))"

section \<open>The assets of the current route (server.js, lines 147 to 161)\<close>

text \<open>
  \<^verbatim>\<open>const fileName = css.split("/").pop();\<close> The array that \<open>split\<close> returns is never
  empty, so \<open>pop\<close> never gives \<^verbatim>\<open>undefined\<close> here; the model keeps the case and reads
  \<^verbatim>\<open>undefined\<close> as lodash's \<open>toString\<close> does, as the empty string.
\<close>

definition fileName :: "string \<Rightarrow> string" where
  "fileName p = (case pop (split p CHR ''/'') of None \<Rightarrow> [] | Some f \<Rightarrow> f)"

text \<open>
  \<^verbatim>\<open>
  const currentRouteCss = _.filter(allCss, css => {
    const fileName = css.split("/").pop();
    return !(_.startsWith(fileName, "mod-") && fileName.indexOf(mod) === -1);
  });
  \<close>
  (\<open>mod\<close> is written \<open>module\<close>: \<open>mod\<close> is an operator of HOL.)
\<close>

definition currentRouteCss :: "string \<Rightarrow> string list \<Rightarrow> string list" where
  "currentRouteCss module allCss =
     filter (\<lambda>css. \<not> (startsWith (fileName css) ''mod-'' \<and> indexOf (fileName css) module = - 1))
       allCss"

text \<open>
  \<^verbatim>\<open>
  const currentRouteJs = _.filter(allJs, js => {
    const fileName = js.split("/").pop();
    return !_.startsWith(fileName, "mod-") && !_.startsWith(fileName, "service-worker.js");
  });
  \<close>
\<close>

definition currentRouteJs :: "string list \<Rightarrow> string list" where
  "currentRouteJs allJs =
     filter (\<lambda>js. \<not> startsWith (fileName js) ''mod-''
                \<and> \<not> startsWith (fileName js) ''service-worker.js'')
       allJs"

section \<open>SEO details of the matched routes (server.js, lines 171 to 196)\<close>

text \<open>
  An SEO metadata object is a map from field names to values; a field that is absent or
  \<^verbatim>\<open>undefined\<close> is \<open>None\<close>. A route definition may carry one (\<^verbatim>\<open>r.seo\<close>); its other
  fields are read only by the collaborators of the handler.
\<close>

type_synonym seo_details = "string \<rightharpoonup> string"

record route =
  pattern :: string
  seo :: "seo_details option"

text \<open>\<^verbatim>\<open>_.get(r, "seo", {})\<close>: the route's metadata, the empty object when it has none.\<close>

definition get_seo :: "route \<Rightarrow> seo_details" where
  "get_seo r = (case seo r of None \<Rightarrow> Map.empty | Some s \<Rightarrow> s)"

text \<open>
  \<^verbatim>\<open>_.defaults(object, ...sources)\<close>: the sources are read from left to right, and a
  source gives a field its value only where the object has none yet.
\<close>

definition defaults :: "('k \<rightharpoonup> 'v) \<Rightarrow> ('k \<rightharpoonup> 'v) list \<Rightarrow> ('k \<rightharpoonup> 'v)" where
  "defaults object sources =
     foldl (\<lambda>obj source. (\<lambda>key. case obj key of None \<Rightarrow> source key | Some v \<Rightarrow> Some v))
       object sources"

text \<open>
  \<^verbatim>\<open>
  let seoDetails = {};
  _.each(currentRoutes, r => {
    seoDetails = _.defaults({}, _.get(r, "seo", {}), seoDetails);
  });
  \<close>
\<close>

definition seoDetails :: "route list \<Rightarrow> seo_details" where
  "seoDetails currentRoutes =
     foldl (\<lambda>details r. defaults Map.empty [get_seo r, details]) Map.empty currentRoutes"

section \<open>Thrown values, promises and the response object\<close>

text \<open>
  A value that is thrown or that a promise rejects with: whether it is an \<^verbatim>\<open>Error\<close>, its
  message (for another value, its conversion to a string) and its \<^verbatim>\<open>statusCode\<close>
  property when it has one.
\<close>

datatype thrown =
  Thrown (instanceof_Error: bool) (error_message: string) (error_statusCode: "int option")

text \<open>\<^verbatim>\<open>x || d\<close> on a number that may be absent: \<^verbatim>\<open>undefined\<close> and 0 are falsy.\<close>

definition or_default :: "int option \<Rightarrow> int \<Rightarrow> int" where
  "or_default x d = (case x of None \<Rightarrow> d | Some c \<Rightarrow> if c = 0 then d else c)"

text \<open>\<^verbatim>\<open>if (context.url)\<close>: a string is truthy when it is not empty.\<close>

definition truthy_string :: "string option \<Rightarrow> string option" where
  "truthy_string x = (case x of None \<Rightarrow> None | Some u \<Rightarrow> if u = [] then None else Some u)"

text \<open>
  A preload promise, as it ends: it stays pending for ever, it is fulfilled, or it is
  rejected at some moment with some value. \<^verbatim>\<open>Promise.all\<close> is rejected with the earliest
  rejection (the first in the array among equal moments), whatever the other promises
  do; it is fulfilled when every promise is; otherwise it never settles.
\<close>

datatype promise = Pending | Fulfilled | Rejected nat thrown

datatype settlement = Never | Resolved | Rejection thrown

fun first_rejection :: "promise list \<Rightarrow> (nat \<times> thrown) option" where
  "first_rejection [] = None"
| "first_rejection (p # ps) =
     (case p of
        Rejected t e \<Rightarrow>
          (case first_rejection ps of
             None \<Rightarrow> Some (t, e)
           | Some (t', e') \<Rightarrow> if t' < t then Some (t', e') else Some (t, e))
      | _ \<Rightarrow> first_rejection ps)"

definition Promise_all :: "promise list \<Rightarrow> settlement" where
  "Promise_all promises =
     (case first_rejection promises of
        Some (t, e) \<Rightarrow> Rejection e
      | None \<Rightarrow> if Pending \<in> set promises then Never else Resolved)"

text \<open>
  The calls the handlers make on Express's response object \<^verbatim>\<open>res\<close>, in order, and what
  Express (version 4, on Node) sends for them.
  \<^item> \<^verbatim>\<open>res.status(n)\<close> sets the status of the response to come and checks nothing.
  \<^item> \<^verbatim>\<open>res.send(body)\<close> sends the body with that status (200 when none was set). Node
    refuses a status below 100 or above 999: the call throws a \<^verbatim>\<open>RangeError\<close> and nothing
    is sent. With the status 204 or 304, and with a status below 200, the response goes
    out with no body.
  \<^item> \<^verbatim>\<open>res.redirect(url)\<close> with one argument sets the status to 302 itself and sends the
    redirection to \<open>url\<close>.
  \<^item> A request is answered once: after a response has gone out, a later \<^verbatim>\<open>send\<close> or
    \<^verbatim>\<open>redirect\<close> sends nothing.
  The request is an unconditional \<^verbatim>\<open>GET\<close>: for a \<^verbatim>\<open>HEAD\<close> request Express sends no body,
  and for a conditional request whose validators match it answers 304.
\<close>

datatype res_call =
  Res_setHeader string string
| Res_status int
| Res_redirect string
| Res_send string

datatype http_response =
  Document (response_status: int) (response_body: string)
| Redirection (response_status: int) (location: string)

definition invalid_status :: "int \<Rightarrow> bool" where
  "invalid_status n = (n < 100 \<or> 999 < n)"

definition without_body :: "int \<Rightarrow> bool" where
  "without_body n = (n = 204 \<or> n = 304 \<or> n < 200)"

definition RangeError :: "int \<Rightarrow> thrown" where
  "RangeError n = Thrown True (''Invalid status code: '' @ number_text n) None"

fun express :: "int \<Rightarrow> res_call list \<Rightarrow> http_response list" where
  "express statusCode [] = []"
| "express statusCode (Res_setHeader name v # calls) = express statusCode calls"
| "express statusCode (Res_status n # calls) = express n calls"
| "express statusCode (Res_send body # calls) =
     (if invalid_status statusCode then express statusCode calls
      else [Document statusCode (if without_body statusCode then [] else body)])"
| "express statusCode (Res_redirect u # calls) = [Redirection 302 u]"

section \<open>The request, its handles and the collaborators\<close>

record request =
  path :: string
  assets :: "string list"

text \<open>
  \<^verbatim>\<open>new Storage(req, res)\<close>, \<^verbatim>\<open>new Api({storage})\<close>, \<^verbatim>\<open>createHistory()\<close> and
  \<^verbatim>\<open>configureStore({history})\<close> make the handles of one request. What they hold is the
  business of the collaborators they are passed to.
\<close>

datatype storage = Storage request
datatype api = Api storage
datatype history = createHistory
datatype store = configureStore history

text \<open>
  \<^verbatim>\<open>const context = { storage, api, pathname: req.path };\<close> A render may set \<^verbatim>\<open>url\<close> and
  \<^verbatim>\<open>status\<close> on it.
\<close>

record request_context =
  storage :: storage
  api :: api
  pathname :: string
  url :: "string option"
  status :: "int option"

text \<open>The element \<^verbatim>\<open><Html stylesheets=... scripts=... seo=...>{children}</Html>\<close>.\<close>

datatype 'v element =
  Html (stylesheets: "string list") (scripts: "string list")
       (seo_prop: "seo_details option") (children: 'v)

text \<open>
  What server.js imports and calls: the route table, \<^verbatim>\<open>core/utils/bundler\<close>,
  \<^verbatim>\<open>core/utils/renderer\<close>, and \<^verbatim>\<open>ReactDOMServer.renderToStaticMarkup\<close> on the \<^verbatim>\<open>Html\<close>
  component. They are parameters of the model. A call made inside the handler's
  \<^verbatim>\<open>try\<close> may throw (\<open>Inl\<close>); a render returns its view with the context as it leaves it.
  The constant arguments (\<^verbatim>\<open>render: false\<close>, \<^verbatim>\<open>Router\<close>, \<^verbatim>\<open>Route\<close>, \<^verbatim>\<open>Switch\<close>) are left out.
\<close>

record ('r, 'v) collaborators =
  Routes :: 'r
  extractFilesFromAssets :: "string list \<Rightarrow> string \<Rightarrow> string list"
  getModuleByUrl :: "'r \<Rightarrow> string \<Rightarrow> string"
  getRouteFromPath :: "'r \<Rightarrow> string \<Rightarrow> route list"
  getPreloadDataPromises :: "route list \<Rightarrow> storage \<Rightarrow> api \<Rightarrow> store \<Rightarrow> thrown + promise list"
  renderNotFoundPage ::
    "string \<Rightarrow> request_context \<Rightarrow> history \<Rightarrow> store \<Rightarrow> thrown + 'v \<times> request_context"
  renderRoutesByUrl ::
    "string \<Rightarrow> request_context \<Rightarrow> route list \<Rightarrow> storage \<Rightarrow> store \<Rightarrow> api \<Rightarrow> history
       \<Rightarrow> thrown + 'v \<times> request_context"
  renderErrorPage :: "thrown \<Rightarrow> store \<Rightarrow> thrown + 'v"
  renderToStaticMarkup :: "'v element \<Rightarrow> thrown + string"

section \<open>The catch-all handler (server.js, lines 72 to 85 and 129 to 267)\<close>

text \<open>
  \<^verbatim>\<open>
  const getErrorComponent = (err, store) => {
    if (!(err instanceof Error)) { err = new Error(err); }
    err.statusCode = err.statusCode || 500;
    return renderErrorPage({ ..., error: err, store });
  };
  \<close>
\<close>

definition getErrorComponent :: "('r, 'v) collaborators \<Rightarrow> thrown \<Rightarrow> store \<Rightarrow> thrown + 'v" where
  "getErrorComponent env err store' =
     (let err1 = (if \<not> instanceof_Error err then Thrown True (error_message err) None else err);
          err2 = Thrown (instanceof_Error err1) (error_message err1)
                   (Some (or_default (error_statusCode err1) 500))
      in renderErrorPage env err2 store')"

text \<open>
  The three places that send a document do the same:
  \<^verbatim>\<open>
  html = ReactDOMServer.renderToStaticMarkup(
    <Html stylesheets={currentRouteCss} scripts={currentRouteJs} seo={seoDetails}>
      {routerComponent}
    </Html>);
  return res.status(statusCode).send(`<!DOCTYPE html>${html}`);
  \<close>
  (the two catch blocks pass no \<^verbatim>\<open>seo\<close>). The result is the calls made on \<^verbatim>\<open>res\<close> and
  the value thrown, if any: by the markup, before any call, or by \<^verbatim>\<open>send\<close>, after both
  calls, when the status is one Node refuses.
\<close>

definition send_document ::
  "('r, 'v) collaborators \<Rightarrow> int \<Rightarrow> string list \<Rightarrow> string list \<Rightarrow> seo_details option \<Rightarrow> 'v
     \<Rightarrow> res_call list \<times> thrown option" where
  "send_document env statusCode css js seo' routerComponent =
     (case renderToStaticMarkup env (Html css js seo' routerComponent) of
        Inl err \<Rightarrow> ([], Some err)
      | Inr html \<Rightarrow>
          ([Res_status statusCode, Res_send (''<!DOCTYPE html>'' @ html)],
           if invalid_status statusCode then Some (RangeError statusCode) else None))"

text \<open>
  The body of both catch blocks (lines 242 to 253 and 255 to 266); \<open>statusCode\<close> is the
  handler's local variable as it stands when the block runs.
\<close>

definition catch_block ::
  "('r, 'v) collaborators \<Rightarrow> string list \<Rightarrow> string list \<Rightarrow> store \<Rightarrow> int \<Rightarrow> thrown
     \<Rightarrow> res_call list \<times> thrown option" where
  "catch_block env css js store' statusCode err =
     (case getErrorComponent env err store' of
        Inl err' \<Rightarrow> ([], Some err')
      | Inr routerComponent \<Rightarrow> send_document env statusCode css js None routerComponent)"

text \<open>
  The callback of \<^verbatim>\<open>Promise.all(promises).then\<close> (lines 191 to 240). When it throws, the
  result holds the thrown value with \<open>statusCode\<close> as it stands then: 200 until line 225
  has run.
\<close>

definition then_callback ::
  "('r, 'v) collaborators \<Rightarrow> request \<Rightarrow> route list \<Rightarrow> string list \<Rightarrow> string list
     \<Rightarrow> request_context \<Rightarrow> storage \<Rightarrow> api \<Rightarrow> history \<Rightarrow> store
     \<Rightarrow> res_call list \<times> (int \<times> thrown) option" where
  "then_callback env req currentRoutes css js context' storage' api' history' store' =
     (case (if length currentRoutes = 0
            then renderNotFoundPage env (path req) context' history' store'
            else renderRoutesByUrl env (path req) context' currentRoutes storage' store' api'
                   history') of
        Inl err \<Rightarrow> ([], Some (200, err))
      | Inr (routerComponent, rendered) \<Rightarrow>
          (let statusCode = or_default (status rendered) 200 in
           case truthy_string (url rendered) of
             Some target \<Rightarrow> ([Res_status statusCode, Res_redirect target], None)
           | None \<Rightarrow>
               (case send_document env statusCode css js (Some (seoDetails currentRoutes))
                       routerComponent of
                  (calls, None) \<Rightarrow> (calls, None)
                | (calls, Some err) \<Rightarrow> (calls, Some (statusCode, err)))))"

text \<open>
  How a run of the handler ends, each time with the calls made on \<^verbatim>\<open>res\<close>: the handler
  or a callback returns; \<^verbatim>\<open>Promise.all\<close> never settles, so that neither callback runs;
  a value is thrown out of the handler (from the outer catch block); or the promise
  chain is rejected and nobody catches it (thrown in the promise's catch callback).
\<close>

datatype run =
  Calls "res_call list"
| Never_settled
| Uncaught "res_call list" thrown
| Unhandled_rejection "res_call list" thrown

text \<open>
  The handler of \<^verbatim>\<open>app.get("*")\<close>. \<^verbatim>\<open>_.assignIn({}, Routes)\<close> is a shallow copy of the
  route table: the model passes the table. \<^verbatim>\<open>let html, statusCode = 200;\<close> is the 200
  given to the catch blocks that run before line 225. The calls made before the \<^verbatim>\<open>try\<close>
  (the bundler's functions and the constructors of the handles) are taken not to throw.
  \<^verbatim>\<open>
  try {
    let promises = getPreloadDataPromises({ routes: currentRoutes, storage, api, store });
    Promise.all(promises).then(() => { ... }).catch((err) => { ... });
  } catch (err) { ... }
  \<close>
\<close>

definition handler :: "('r, 'v) collaborators \<Rightarrow> request \<Rightarrow> run" where
  "handler env req =
     (let routes = Routes env;
          allCss = extractFilesFromAssets env (assets req) ''.css'';
          allJs = extractFilesFromAssets env (assets req) ''.js'';
          module = getModuleByUrl env routes (path req);
          currentRoutes = getRouteFromPath env routes (path req);
          storage' = Storage req;
          api' = Api storage';
          css = currentRouteCss module allCss;
          js = currentRouteJs allJs;
          context' = \<lparr>storage = storage', api = api', pathname = path req,
                       url = None, status = None\<rparr>;
          history' = createHistory;
          store' = configureStore history'
      in case getPreloadDataPromises env currentRoutes storage' api' store' of
           Inl err \<Rightarrow>
             (case catch_block env css js store' 200 err of
                (calls, None) \<Rightarrow> Calls calls
              | (calls, Some err') \<Rightarrow> Uncaught calls err')
         | Inr promises \<Rightarrow>
             (case Promise_all promises of
                Never \<Rightarrow> Never_settled
              | Rejection err \<Rightarrow>
                  (case catch_block env css js store' 200 err of
                     (calls, None) \<Rightarrow> Calls calls
                   | (calls, Some err') \<Rightarrow> Unhandled_rejection calls err')
              | Resolved \<Rightarrow>
                  (case then_callback env req currentRoutes css js context' storage' api'
                          history' store' of
                     (calls, None) \<Rightarrow> Calls calls
                   | (calls, Some (statusCode, err)) \<Rightarrow>
                       (case catch_block env css js store' statusCode err of
                          (calls', None) \<Rightarrow> Calls (calls @ calls')
                        | (calls', Some err') \<Rightarrow> Unhandled_rejection (calls @ calls') err'))))"

text \<open>The calls a run made on \<^verbatim>\<open>res\<close>, and the HTTP responses Express sent for them.\<close>

fun res_calls :: "run \<Rightarrow> res_call list" where
  "res_calls (Calls calls) = calls"
| "res_calls Never_settled = []"
| "res_calls (Uncaught calls err) = calls"
| "res_calls (Unhandled_rejection calls err) = calls"

definition responses :: "run \<Rightarrow> http_response list" where
  "responses r = express 200 (res_calls r)"

section \<open>The manifest (server.js, lines 107 to 127)\<close>

text \<open>
  JSON values, with an object as the list of its properties in order. The shared
  \<^verbatim>\<open>config\<close> object of the process has a \<^verbatim>\<open>pwa\<close> property, an object; its other
  properties are the rest of the record. A request reads and writes the object itself,
  so the handler takes the configuration as it is before the request and returns it
  as it is after.
\<close>

datatype json =
  JString string
| JNumber int
| JArray "json list"
| JObject "(string \<times> json) list"

record config =
  pwa :: "(string \<times> json) list"

text \<open>
  \<^verbatim>\<open>_.set(object, "icons", v)\<close>, for a path of one property: the property is overwritten
  where it stands, or added after the others.
\<close>

definition lodash_set :: "(string \<times> json) list \<Rightarrow> string \<Rightarrow> json \<Rightarrow> (string \<times> json) list" where
  "lodash_set object key v = AList.update key v object"

definition availableSizes :: "nat list" where
  "availableSizes = [72, 96, 128, 144, 152, 192, 384, 512]"

text \<open>
  \<^verbatim>\<open>
  const icons = availableSizes.map(size => {
    return {
      "src": require(`resources/images/pwa/icon-${size}x${size}.png`),
      sizes: `${size}x${size}`
    };
  });
  \<close>
  \<open>require\<close> is the bundler's: what it gives for an image is a parameter.
\<close>

definition icons :: "(string \<Rightarrow> json) \<Rightarrow> json" where
  "icons require =
     JArray (map (\<lambda>size.
        JObject [(''src'', require (''resources/images/pwa/icon-'' @ decimal size @ ''x''
                                      @ decimal size @ ''.png'')),
                 (''sizes'', JString (decimal size @ ''x'' @ decimal size))])
       availableSizes)"

text \<open>
  \<^verbatim>\<open>
  app.get("/manifest.json", (req, res) => {
    const { pwa } = config;
    ...
    _.set(pwa, "icons", icons);
    res.setHeader("Content-Type", "application/manifest+json");
    res.setHeader("Cache-Control", "private, no-cache, no-store, must-revalidate");
    res.setHeader("Expires", "-1");
    res.setHeader("Pragma", "no-cache");
    return res.send(JSON.stringify(pwa));
  });
  \<close>
  \<^verbatim>\<open>JSON.stringify\<close> is a parameter. The handler reads nothing of the request.
\<close>

definition manifest ::
  "(string \<Rightarrow> json) \<Rightarrow> (json \<Rightarrow> string) \<Rightarrow> 'z config_scheme
     \<Rightarrow> 'z config_scheme \<times> res_call list" where
  "manifest require stringify config =
     (let pwa' = lodash_set (pwa config) ''icons'' (icons require);
          config' = config\<lparr>pwa := pwa'\<rparr>
      in (config',
          [Res_setHeader ''Content-Type'' ''application/manifest+json'',
           Res_setHeader ''Cache-Control'' ''private, no-cache, no-store, must-revalidate'',
           Res_setHeader ''Expires'' ''-1'',
           Res_setHeader ''Pragma'' ''no-cache'',
           Res_send (stringify (JObject (pwa config')))]))"

section \<open>The collaborators and the dispatcher, as the spec describes them\<close>

text \<open>
  Modelled from the spec: \<^verbatim>\<open>getPreloadDataPromises\<close> of \<^verbatim>\<open>core/utils/renderer\<close> is not
  under src/. Section 4.3: each chain node with a declared preload step is invoked and
  returns a future; a chain with no preload steps resolves immediately with no failure.
  \<open>preload\<close> gives the promise of a route's declared step, \<open>None\<close> for a route without one.
\<close>

definition spec_getPreloadDataPromises ::
  "(route \<Rightarrow> promise option) \<Rightarrow> route list \<Rightarrow> storage \<Rightarrow> api \<Rightarrow> store \<Rightarrow> thrown + promise list" where
  "spec_getPreloadDataPromises preload routes storage' api' store' =
     Inr (List.map_filter preload routes)"

text \<open>
  Modelled from the spec: \<^verbatim>\<open>renderNotFoundPage\<close> of \<^verbatim>\<open>core/utils/renderer\<close> is not under
  src/. Section 4.5, case 2: the not-found outcome renders a not-found view, status 404.
  A render gives its status to the handler on the context (section 3, RequestContext:
  an optional HTTP status override populated during dispatch).
\<close>

definition spec_renderNotFoundPage ::
  "'v \<Rightarrow> string \<Rightarrow> request_context \<Rightarrow> history \<Rightarrow> store \<Rightarrow> thrown + 'v \<times> request_context" where
  "spec_renderNotFoundPage notFoundView url' context' history' store' =
     Inr (notFoundView, context'\<lparr>status := Some 404\<rparr>)"

text \<open>
  Modelled from the spec: the \<^verbatim>\<open>Html\<close> component of \<^verbatim>\<open>core/components/html\<close> and its
  serialization are not under src/. Sections 4.6 and 7: the view tree is serialized and
  wrapped in a fixed document shell with the assets and the SEO tags; given well-formed
  inputs the composition does not fail. \<open>shell\<close> is that serialization.
\<close>

definition spec_renderToStaticMarkup :: "('v element \<Rightarrow> string) \<Rightarrow> 'v element \<Rightarrow> thrown + string" where
  "spec_renderToStaticMarkup shell element' = Inr (shell element')"

text \<open>
  The render outcome of the spec (section 3) and its Render Dispatcher (section 4.5, with
  the error taxonomy of section 7), written from the spec's words to be compared with
  the handler: a failed preload gives the error outcome, with status 500 or the status
  the failure declares; else an empty chain gives the not-found outcome; else the page is
  rendered, and a redirect target set on the context gives the redirect outcome, with the
  context's status or 302; otherwise the outcome is the page. A render that throws gives
  the error outcome. The error view is rendered for the failure wrapped with its default
  status, as \<open>getErrorComponent\<close> does. There is no outcome while the preload has not
  settled, nor when the error view cannot be rendered.
\<close>

datatype 'v RenderOutcome =
  Page 'v
| NotFound 'v
| Redirect string int
| Error 'v int

definition spec_error_outcome ::
  "('r, 'v) collaborators \<Rightarrow> thrown \<Rightarrow> store \<Rightarrow> 'v RenderOutcome option" where
  "spec_error_outcome env err store' =
     (case getErrorComponent env err store' of
        Inl err' \<Rightarrow> None
      | Inr errorView \<Rightarrow> Some (Error errorView (or_default (error_statusCode err) 500)))"

definition spec_dispatch :: "('r, 'v) collaborators \<Rightarrow> request \<Rightarrow> 'v RenderOutcome option" where
  "spec_dispatch env req =
     (let matchedChain = getRouteFromPath env (Routes env) (path req);
          storage' = Storage req;
          api' = Api storage';
          context' = \<lparr>storage = storage', api = api', pathname = path req,
                       url = None, status = None\<rparr>;
          store' = configureStore createHistory
      in case getPreloadDataPromises env matchedChain storage' api' store' of
           Inl err \<Rightarrow> spec_error_outcome env err store'
         | Inr promises \<Rightarrow>
             (case Promise_all promises of
                Never \<Rightarrow> None
              | Rejection err \<Rightarrow> spec_error_outcome env err store'
              | Resolved \<Rightarrow>
                  (if matchedChain = []
                   then (case renderNotFoundPage env (path req) context' createHistory store' of
                           Inl err \<Rightarrow> spec_error_outcome env err store'
                         | Inr (view, rendered) \<Rightarrow> Some (NotFound view))
                   else (case renderRoutesByUrl env (path req) context' matchedChain storage'
                                store' api' createHistory of
                           Inl err \<Rightarrow> spec_error_outcome env err store'
                         | Inr (view, rendered) \<Rightarrow>
                             (case truthy_string (url rendered) of
                                Some target \<Rightarrow>
                                  Some (Redirect target (or_default (status rendered) 302))
                              | None \<Rightarrow> Some (Page view))))))"





text \<open>
  Short names for what the handler computes from a request before the \<^verbatim>\<open>try\<close>: the matched
  chain, the filtered stylesheets and scripts, the context and the store.
\<close>

abbreviation matchedChain :: "('r, 'v) collaborators \<Rightarrow> request \<Rightarrow> route list" where
  "matchedChain env req \<equiv> getRouteFromPath env (Routes env) (path req)"



abbreviation newContext :: "request \<Rightarrow> request_context" where
  "newContext req \<equiv>
     \<lparr>storage = Storage req, api = Api (Storage req), pathname = path req,
      url = None, status = None\<rparr>"

abbreviation newStore :: store where
  "newStore \<equiv> configureStore createHistory"

text \<open>
  The render the handler calls once the preload has resolved (lines 198 to 223): the
  not-found render for an empty chain, the page render otherwise.
\<close>

abbreviation render ::
  "('r, 'v) collaborators \<Rightarrow> request \<Rightarrow> thrown + 'v \<times> request_context" where
  "render env req \<equiv>
     (if length (matchedChain env req) = 0
      then renderNotFoundPage env (path req) (newContext req) createHistory newStore
      else renderRoutesByUrl env (path req) (newContext req) (matchedChain env req)
             (Storage req) newStore (Api (Storage req)) createHistory)"

section \<open>Collaborators to run the handler on\<close>

text \<open>
  A small set of collaborators: the path is matched by the given chain, the preload
  step gives the given promises, a render leaves on the context what \<open>effect\<close> makes
  of it, the error view shows the error's status code, and the markup lists the
  stylesheets, the scripts, the SEO title and the view.
\<close>

definition status_text :: "int option \<Rightarrow> string" where
  "status_text c = (case c of None \<Rightarrow> ''none'' | Some n \<Rightarrow> number_text n)"

definition demo_shell :: "string element \<Rightarrow> string" where
  "demo_shell h =
     concat (stylesheets h) @ '';'' @ concat (scripts h) @ '';''
     @ (case seo_prop h of
          None \<Rightarrow> ''no seo''
        | Some s \<Rightarrow> (case s ''title'' of None \<Rightarrow> ''untitled'' | Some t \<Rightarrow> t))
     @ '';'' @ children h"

definition demo ::
  "route list \<Rightarrow> thrown + promise list \<Rightarrow> (request_context \<Rightarrow> request_context)
     \<Rightarrow> (unit, string) collaborators" where
  "demo chain preload effect =
     \<lparr>Routes = (),
      extractFilesFromAssets =
        (\<lambda>files ext. filter (\<lambda>f. drop (length f - length ext) f = ext) files),
      getModuleByUrl = (\<lambda>routes p. ''home''),
      getRouteFromPath = (\<lambda>routes p. chain),
      getPreloadDataPromises = (\<lambda>routes s a st. preload),
      renderNotFoundPage = (\<lambda>u c h st. Inr (''NotFound'', effect c)),
      renderRoutesByUrl = (\<lambda>u c routes s st a h. Inr (''Page'', effect c)),
      renderErrorPage = (\<lambda>err st. Inr (''Error '' @ status_text (error_statusCode err))),
      renderToStaticMarkup = (\<lambda>h. Inr (demo_shell h))\<rparr>"

text \<open>
  The same with the collaborators of a path that no route matches as the spec describes
  them.
\<close>

definition spec_demo :: "(unit, string) collaborators" where
  "spec_demo =
     (demo [] (Inr []) id)
       \<lparr>getPreloadDataPromises := spec_getPreloadDataPromises (\<lambda>r. None),
        renderNotFoundPage := spec_renderNotFoundPage ''NotFound'',
        renderToStaticMarkup := spec_renderToStaticMarkup demo_shell\<rparr>"

definition demo_request :: request where
  "demo_request =
     \<lparr>path = ''/nowhere'',
      assets = [''/css/main.css'', ''/css/mod-home.css'', ''/css/mod-blog.css'',
                ''/js/main.js'', ''/js/mod-home.js'', ''/service-worker.js'']\<rparr>"

section \<open>Strings: what the helpers compute\<close>

lemma split_not_Nil: "split s c \<noteq> []"
  by (induction s) (auto split: list.splits)

lemma startsWith_prefix: "startsWith s t \<longleftrightarrow> prefix t s"
  unfolding startsWith_def
  by (metis append_eq_conv_conj prefix_def take_is_prefix)

lemma indexOf_nonneg_or_minus_one: "indexOf s m = - 1 \<or> 0 \<le> indexOf s m"
  by (induction s) (auto simp: Let_def)

lemma indexOf_minus_one_iff: "indexOf s m = - 1 \<longleftrightarrow> \<not> sublist m s"
proof (induction s)
  case Nil
  then show ?case by simp
next
  case (Cons x xs)
  have nonneg: "indexOf xs m = - 1 \<or> 0 \<le> indexOf xs m"
    by (rule indexOf_nonneg_or_minus_one)
  show ?case
  proof (cases "startsWith (x # xs) m")
    case True
    then show ?thesis
      by (simp add: startsWith_prefix sublist_Cons_right)
  next
    case False
    with Cons nonneg show ?thesis
      by (auto simp: Let_def startsWith_prefix sublist_Cons_right)
  qed
qed

lemma fileName_last: "fileName p = last (split p CHR ''/'')"
  using split_not_Nil [of p "CHR ''/''"]
  by (simp add: fileName_def pop_def split: list.splits)

lemma join_Cons_Cons: "join ((x # p) # ps) c = x # join (p # ps) c"
  by (cases ps) simp_all

lemma join_split: "join (split s c) c = s"
proof (induction s)
  case Nil
  then show ?case by simp
next
  case (Cons x xs)
  show ?case
  proof (cases "x = c")
    case True
    with Cons split_not_Nil [of xs c] show ?thesis
      by (cases "split xs c") simp_all
  next
    case False
    with Cons split_not_Nil [of xs c] show ?thesis
      by (cases "split xs c") (simp_all add: join_Cons_Cons)
  qed
qed

lemma split_pieces_no_separator: "q \<in> set (split s c) \<Longrightarrow> c \<notin> set q"
  by (induction s arbitrary: q) (auto split: if_splits list.splits)

lemma join_last:
  "ps \<noteq> [] \<Longrightarrow> \<exists>dir. join ps c = dir @ last ps \<and> (dir = [] \<or> last dir = c)"
proof (induction ps c rule: join.induct)
  case (1 c)
  then show ?case by simp
next
  case (2 p c)
  then show ?case by simp
next
  case (3 p q ps c)
  then obtain dir where d: "join (q # ps) c = dir @ last (q # ps)"
    and l: "dir = [] \<or> last dir = c" by auto
  have "join (p # q # ps) c = (p @ c # dir) @ last (p # q # ps)"
    using d by simp
  moreover have "last (p @ c # dir) = c"
    using l by auto
  ultimately show ?case by blast
qed

lemma fileName_decompose:
  "\<exists>dir. p = dir @ fileName p \<and> (dir = [] \<or> last dir = CHR ''/'')"
  using join_last [OF split_not_Nil, of p "CHR ''/''" "CHR ''/''"]
  by (simp add: join_split fileName_last)

lemma fileName_no_slash: "CHR ''/'' \<notin> set (fileName p)"
  using split_pieces_no_separator [of "fileName p" p "CHR ''/''"] split_not_Nil [of p "CHR ''/''"]
  by (simp add: fileName_last)

lemma indexOf_empty: "indexOf s [] = 0"
  by (cases s) (simp_all add: startsWith_def)

section \<open>SEO details: the lemmas\<close>

lemma defaults_two:
  "defaults Map.empty [a, b] field = (case a field of None \<Rightarrow> b field | Some v \<Rightarrow> Some v)"
  by (simp add: defaults_def)

lemma seoDetails_snoc:
  "seoDetails (chain @ [r]) field =
     (case get_seo r field of None \<Rightarrow> seoDetails chain field | Some v \<Rightarrow> Some v)"
  unfolding seoDetails_def by (simp add: defaults_two)

section \<open>Promises: the lemmas\<close>

lemma first_rejection_mem: "first_rejection ps = Some (t, e) \<Longrightarrow> Rejected t e \<in> set ps"
  by (induction ps arbitrary: t e) (auto split: promise.splits option.splits if_splits)

lemma first_rejection_None: "first_rejection ps = None \<longleftrightarrow> (\<forall>t e. Rejected t e \<notin> set ps)"
  by (induction ps) (auto split: promise.splits option.splits)

lemma Promise_all_rejected:
  "Rejected t e \<in> set ps \<Longrightarrow> \<exists>t' e'. Rejected t' e' \<in> set ps \<and> Promise_all ps = Rejection e'"
proof -
  assume r: "Rejected t e \<in> set ps"
  then have "first_rejection ps \<noteq> None" by (auto simp: first_rejection_None)
  then obtain t' e' where f: "first_rejection ps = Some (t', e')" by auto
  then have "Rejected t' e' \<in> set ps" by (rule first_rejection_mem)
  with f show ?thesis by (auto simp: Promise_all_def)
qed

lemma Promise_all_Never: "Promise_all ps = Never \<longleftrightarrow> (\<forall>t e. Rejected t e \<notin> set ps) \<and> Pending \<in> set ps"
  by (auto simp: Promise_all_def first_rejection_None split: option.splits dest: first_rejection_mem)

section \<open>The calls a handler makes\<close>



lemma send_document_calls:
  "send_document env statusCode css js seo' v = (calls, thrown') \<Longrightarrow>
     (calls = [] \<and> thrown' \<noteq> None)
   \<or> (\<exists>body. calls = [Res_status statusCode, Res_send body]
         \<and> (thrown' = None \<longleftrightarrow> \<not> invalid_status statusCode))"
  by (auto simp: send_document_def split: sum.splits if_splits)

lemma catch_block_calls:
  "catch_block env css js st statusCode err = (calls, thrown') \<Longrightarrow>
     (calls = [] \<and> thrown' \<noteq> None)
   \<or> (\<exists>body. calls = [Res_status statusCode, Res_send body]
         \<and> (thrown' = None \<longleftrightarrow> \<not> invalid_status statusCode))"
  by (auto simp: catch_block_def split: sum.splits dest: send_document_calls)

lemma then_callback_calls:
  "then_callback env req chain css js c s a h st = (calls, thrown') \<Longrightarrow>
     (calls = [] \<and> thrown' \<noteq> None)
   \<or> (\<exists>n target. calls = [Res_status n, Res_redirect target] \<and> thrown' = None)
   \<or> (\<exists>n body. calls = [Res_status n, Res_send body] \<and> \<not> invalid_status n \<and> thrown' = None)
   \<or> (\<exists>n body. calls = [Res_status n, Res_send body] \<and> invalid_status n
         \<and> thrown' = Some (n, RangeError n))"
  by (auto simp: then_callback_def Let_def send_document_def
        split: sum.splits option.splits if_splits prod.splits)

lemma handler_calls:
  "res_calls (handler env req) = []
   \<or> (\<exists>n body. res_calls (handler env req) = [Res_status n, Res_send body])
   \<or> (\<exists>n target. res_calls (handler env req) = [Res_status n, Res_redirect target])
   \<or> (\<exists>n body body'. invalid_status n \<and>
         res_calls (handler env req) = [Res_status n, Res_send body, Res_status n, Res_send body'])"
proof -
  let ?chain = "getRouteFromPath env (Routes env) (path req)"
  let ?css = "currentRouteCss (getModuleByUrl env (Routes env) (path req))
                (extractFilesFromAssets env (assets req) ''.css'')"
  let ?js = "currentRouteJs (extractFilesFromAssets env (assets req) ''.js'')"
  let ?store = "configureStore createHistory"
  let ?ctx = "\<lparr>storage = Storage req, api = Api (Storage req), pathname = path req,
                     url = None, status = None\<rparr>"
  show ?thesis
  proof (cases "getPreloadDataPromises env ?chain (Storage req) (Api (Storage req)) ?store")
    case (Inl err)
    obtain calls thrown' where c: "catch_block env ?css ?js ?store 200 err = (calls, thrown')"
      by (cases "catch_block env ?css ?js ?store 200 err")
    from catch_block_calls [OF c] Inl c show ?thesis
      by (auto simp: handler_def Let_def)
  next
    case (Inr promises)
    show ?thesis
    proof (cases "Promise_all promises")
      case Never
      with Inr show ?thesis by (simp add: handler_def Let_def)
    next
      case (Rejection err)
      obtain calls thrown' where c: "catch_block env ?css ?js ?store 200 err = (calls, thrown')"
        by (cases "catch_block env ?css ?js ?store 200 err")
      from catch_block_calls [OF c] Inr Rejection c show ?thesis
        by (auto simp: handler_def Let_def)
    next
      case Resolved
      obtain calls thrown' where
        t: "then_callback env req ?chain ?css ?js ?ctx (Storage req) (Api (Storage req))
              createHistory ?store = (calls, thrown')"
        by (cases "then_callback env req ?chain ?css ?js ?ctx (Storage req)
                     (Api (Storage req)) createHistory ?store")
      show ?thesis
      proof (cases thrown')
        case None
        with then_callback_calls [OF t] Inr Resolved t show ?thesis
          by (auto simp: handler_def Let_def)
      next
        case (Some ne)
        obtain n err where ne: "ne = (n, err)" by (cases ne)
        obtain calls' thrown'' where
          c: "catch_block env ?css ?js ?store n err = (calls', thrown'')"
          by (cases "catch_block env ?css ?js ?store n err")
        from then_callback_calls [OF t] catch_block_calls [OF c] Inr Resolved t Some ne c
        show ?thesis
          by (auto simp: handler_def Let_def)
      qed
    qed
  qed
qed

lemma rejected_preload_status:
  assumes "getPreloadDataPromises env (getRouteFromPath env (Routes env) (path req)) (Storage req)
             (Api (Storage req)) (configureStore createHistory) = Inr promises"
    and "Promise_all promises = Rejection err"
  shows "responses (handler env req) = []
       \<or> (\<exists>body. responses (handler env req) = [Document 200 body])"
proof -
  let ?css = "currentRouteCss (getModuleByUrl env (Routes env) (path req))
                (extractFilesFromAssets env (assets req) ''.css'')"
  let ?js = "currentRouteJs (extractFilesFromAssets env (assets req) ''.js'')"
  let ?store = "configureStore createHistory"
  obtain calls thrown' where c: "catch_block env ?css ?js ?store 200 err = (calls, thrown')"
    by (cases "catch_block env ?css ?js ?store 200 err")
  from catch_block_calls [OF c] assms c show ?thesis
    by (auto simp: handler_def Let_def responses_def invalid_status_def without_body_def)
qed

lemma send_document_ignores_page_renders:
  "send_document (env\<lparr>renderRoutesByUrl := pageRender, renderNotFoundPage := notFoundRender\<rparr>) =
   send_document env"
  by (intro ext) (simp add: send_document_def)

lemma getErrorComponent_ignores_page_renders:
  "getErrorComponent (env\<lparr>renderRoutesByUrl := pageRender, renderNotFoundPage := notFoundRender\<rparr>) =
   getErrorComponent env"
  by (intro ext) (simp add: getErrorComponent_def)

lemma catch_block_ignores_page_renders:
  "catch_block (env\<lparr>renderRoutesByUrl := pageRender, renderNotFoundPage := notFoundRender\<rparr>) =
   catch_block env"
  unfolding catch_block_def send_document_ignores_page_renders
    getErrorComponent_ignores_page_renders ..

lemma catch_block_200:
  "catch_block env css js st 200 err =
     (case getErrorComponent env err st of
        Inl err' \<Rightarrow> ([], Some err')
      | Inr errorView \<Rightarrow>
          (case renderToStaticMarkup env (Html css js None errorView) of
             Inl err' \<Rightarrow> ([], Some err')
           | Inr html \<Rightarrow> ([Res_status 200, Res_send (''<!DOCTYPE html>'' @ html)], None)))"
  by (simp add: catch_block_def send_document_def invalid_status_def split: sum.splits)




section \<open>The manifest: the lemmas\<close>

lemma icons_value:
  "icons require =
     JArray
       [JObject [(''src'', require ''resources/images/pwa/icon-72x72.png''), (''sizes'', JString ''72x72'')],
        JObject [(''src'', require ''resources/images/pwa/icon-96x96.png''), (''sizes'', JString ''96x96'')],
        JObject [(''src'', require ''resources/images/pwa/icon-128x128.png''), (''sizes'', JString ''128x128'')],
        JObject [(''src'', require ''resources/images/pwa/icon-144x144.png''), (''sizes'', JString ''144x144'')],
        JObject [(''src'', require ''resources/images/pwa/icon-152x152.png''), (''sizes'', JString ''152x152'')],
        JObject [(''src'', require ''resources/images/pwa/icon-192x192.png''), (''sizes'', JString ''192x192'')],
        JObject [(''src'', require ''resources/images/pwa/icon-384x384.png''), (''sizes'', JString ''384x384'')],
        JObject [(''src'', require ''resources/images/pwa/icon-512x512.png''), (''sizes'', JString ''512x512'')]]"
  by (simp add: icons_def availableSizes_def decimal.simps)

lemma manifest_example:
  "fst (manifest JString stringify \<lparr>pwa = [(''name'', JString ''app'')]\<rparr>)
     = \<lparr>pwa = [(''name'', JString ''app''), (''icons'', icons JString)]\<rparr>"
  by (simp add: manifest_def Let_def lodash_set_def)

section \<open>Running the handler\<close>

text \<open>
The definitions to unfold when the handler is run on the collaborators above.
\<close>

lemmas run_demo =
  handler_def Let_def demo_def demo_shell_def demo_request_def Promise_all_def catch_block_def
  getErrorComponent_def send_document_def or_default_def status_text_def number_text_def
  currentRouteCss_def currentRouteJs_def fileName_def pop_def startsWith_def then_callback_def
  truthy_string_def responses_def seoDetails_def defaults_def get_seo_def invalid_status_def
  without_body_def decimal.simps

lemma seo_examples:
  "seoDetails [\<lparr>pattern = ''/'', seo = Some [''title'' \<mapsto> ''A'']\<rparr>,
               \<lparr>pattern = ''/leaf'', seo = Some [''title'' \<mapsto> ''B'', ''desc'' \<mapsto> ''D'']\<rparr>] ''title''
     = Some ''B''"
  "seoDetails [\<lparr>pattern = ''/'', seo = Some [''title'' \<mapsto> ''A'']\<rparr>,
               \<lparr>pattern = ''/leaf'', seo = Some [''desc'' \<mapsto> ''D'']\<rparr>] ''title''
     = Some ''A''"
  "seoDetails [\<lparr>pattern = ''/'', seo = Some [''title'' \<mapsto> ''A'']\<rparr>,
               \<lparr>pattern = ''/leaf'', seo = Some [''desc'' \<mapsto> ''D'']\<rparr>] ''desc''
     = Some ''D''"
  by (simp_all add: seoDetails_def defaults_def get_seo_def)

text \<open>
  A status that Node refuses: both sends throw, the second in the promise's catch
  callback, and no response goes out. With the status 204 the response has no body.
\<close>

lemma invalid_status_no_response:
  "handler (demo [] (Inr []) (\<lambda>c. c\<lparr>status := Some 1000\<rparr>)) demo_request
     = Unhandled_rejection
         [Res_status 1000,
          Res_send ''<!DOCTYPE html>/css/main.css/css/mod-home.css;/js/main.js;untitled;NotFound'',
          Res_status 1000,
          Res_send ''<!DOCTYPE html>/css/main.css/css/mod-home.css;/js/main.js;no seo;Error 500'']
         (RangeError 1000)"
  "responses (handler (demo [] (Inr []) (\<lambda>c. c\<lparr>status := Some 1000\<rparr>)) demo_request) = []"
  "responses (handler (demo [] (Inr []) (\<lambda>c. c\<lparr>status := Some 204\<rparr>)) demo_request)
     = [Document 204 '''']"
  by (simp_all add: run_demo RangeError_def)

section \<open>The claims\<close>

text \<open>
  C1. The claim: when a preload promise rejects or a render throws, the response has
  status 500, or the status code the failure declares. The handler does otherwise:
  \<open>getErrorComponent\<close> gives the error its status code (500 by default) for the error
  view, but the catch blocks send \<^verbatim>\<open>res.status(statusCode)\<close> with the handler's own
  variable, which is 200 at that moment. Here a preload promise is rejected with an
  \<^verbatim>\<open>Error\<close> that has no status code, another with one that declares 503, and a page
  render throws an error that declares 503: each time the error view is sent with
  status 200.
\<close>

theorem rejected_preload_is_sent_with_status_200:
  "responses (handler (demo [] (Inr [Fulfilled, Rejected 3 (Thrown True ''boom'' None)]) id)
      demo_request)
     = [Document 200 ''<!DOCTYPE html>/css/main.css/css/mod-home.css;/js/main.js;no seo;Error 500'']
   \<and> responses (handler (demo [] (Inr [Rejected 0 (Thrown True ''down'' (Some 503))]) id)
      demo_request)
     = [Document 200 ''<!DOCTYPE html>/css/main.css/css/mod-home.css;/js/main.js;no seo;Error 503'']
   \<and> responses (handler
        ((demo [\<lparr>pattern = ''/account'', seo = None\<rparr>] (Inr []) id)
           \<lparr>renderRoutesByUrl :=
              (\<lambda>u c routes s st a h. Inl (Thrown True ''render failed'' (Some 503)))\<rparr>)
        demo_request)
     = [Document 200 ''<!DOCTYPE html>/css/main.css/css/mod-home.css;/js/main.js;no seo;Error 503'']"
  by (simp add: run_demo)

text \<open>
  C2. Against the collaborators as the spec describes them for a path that no route
  matches (no preload step to wait for, a not-found render that leaves the status 404
  on the context, a document shell that does not fail), the response is the document
  of the not-found view with status 404, composed with the filtered assets and the
  empty SEO metadata object, and the dispatcher's outcome is the not-found one. The
  handler itself only passes on the status it finds on the context (line 225).
\<close>

theorem not_found_is_answered_404:
  assumes "getRouteFromPath env (Routes env) (path req) = []"
    and "getPreloadDataPromises env = spec_getPreloadDataPromises preload"
    and "renderNotFoundPage env = spec_renderNotFoundPage notFoundView"
    and "renderToStaticMarkup env = spec_renderToStaticMarkup shell"
  shows "responses (handler env req)
           = [Document 404
                (''<!DOCTYPE html>'' @
                 shell (Html (currentRouteCss (getModuleByUrl env (Routes env) (path req))
                                (extractFilesFromAssets env (assets req) ''.css''))
                             (currentRouteJs (extractFilesFromAssets env (assets req) ''.js''))
                             (Some Map.empty) notFoundView))]
       \<and> seoDetails (getRouteFromPath env (Routes env) (path req)) = Map.empty
       \<and> spec_dispatch env req = Some (NotFound notFoundView)"
  using assms
  by (simp add: handler_def Let_def then_callback_def send_document_def responses_def
        seoDetails_def or_default_def spec_getPreloadDataPromises_def
        spec_renderNotFoundPage_def spec_renderToStaticMarkup_def Promise_all_def
        truthy_string_def invalid_status_def without_body_def
        spec_dispatch_def)

text \<open>
The same on collaborators that are as the spec describes them.
\<close>

theorem not_found_is_answered_404_witness:
  "responses (handler spec_demo demo_request)
     = [Document 404 ''<!DOCTYPE html>/css/main.css/css/mod-home.css;/js/main.js;untitled;NotFound'']"
proof -
  have chain: "getRouteFromPath spec_demo (Routes spec_demo) (path demo_request) = []"
    by (simp add: spec_demo_def demo_def)
  have preload: "getPreloadDataPromises spec_demo = spec_getPreloadDataPromises (\<lambda>r. None)"
    by (simp add: spec_demo_def)
  have notFound: "renderNotFoundPage spec_demo = spec_renderNotFoundPage ''NotFound''"
    by (simp add: spec_demo_def)
  have markup: "renderToStaticMarkup spec_demo = spec_renderToStaticMarkup demo_shell"
    by (simp add: spec_demo_def)
  from not_found_is_answered_404 [OF chain preload notFound markup] show ?thesis
    by (simp add: spec_demo_def demo_def demo_shell_def demo_request_def currentRouteCss_def
          currentRouteJs_def fileName_def pop_def startsWith_def)
qed

text \<open>
  C3. The claim: the redirect carries the status of the context, 302 when the context
  has none. The handler calls \<^verbatim>\<open>res.status(context.status || 200).redirect(context.url)\<close>:
  the status it passes is 200 when the context has none, and Express's \<^verbatim>\<open>redirect\<close>
  with one argument sets 302 whatever was passed. A render that sets the target
  \<^verbatim>\<open>/login\<close> with status 301 is answered by a redirection with status 302.
\<close>

theorem redirect_status_is_302:
  "handler (demo [\<lparr>pattern = ''/account'', seo = None\<rparr>] (Inr [])
       (\<lambda>c. c\<lparr>url := Some ''/login'', status := Some 301\<rparr>)) demo_request
     = Calls [Res_status 301, Res_redirect ''/login'']
   \<and> responses (handler (demo [\<lparr>pattern = ''/account'', seo = None\<rparr>] (Inr [])
       (\<lambda>c. c\<lparr>url := Some ''/login'', status := Some 301\<rparr>)) demo_request)
     = [Redirection 302 ''/login'']
   \<and> handler (demo [\<lparr>pattern = ''/account'', seo = None\<rparr>] (Inr [])
       (\<lambda>c. c\<lparr>url := Some ''/login''\<rparr>)) demo_request
     = Calls [Res_status 200, Res_redirect ''/login'']"
  by (simp add: run_demo)

text \<open>
  C4. For every matched chain and every metadata field, the aggregated SEO details give
  the field the value of the last entry of the chain (the entry nearest the leaf) that
  defines it, and no value when no entry defines it; an ancestor so fills in only the
  fields its descendants leave unset. For the empty chain the result is the empty
  metadata object.
\<close>

theorem seo_aggregation:
  "seoDetails [] = Map.empty \<and>
   seoDetails chain field =
     (case List.find (\<lambda>r. get_seo r field \<noteq> None) (rev chain) of
        None \<Rightarrow> None
      | Some r \<Rightarrow> get_seo r field)"
proof
  show "seoDetails [] = Map.empty" by (simp add: seoDetails_def)
  show "seoDetails chain field =
     (case List.find (\<lambda>r. get_seo r field \<noteq> None) (rev chain) of
        None \<Rightarrow> None
      | Some r \<Rightarrow> get_seo r field)"
  proof (induction chain rule: rev_induct)
    case Nil
    then show ?case by (simp add: seoDetails_def)
  next
    case (snoc r chain)
    then show ?case
      by (cases "get_seo r field") (simp_all add: seoDetails_snoc)
  qed
qed

text \<open>
  C5. When some preload promise is rejected, the handler runs its catch block on one
  of the rejections and nothing else: it sends, with \<^verbatim>\<open>res.status(200)\<close>, the document
  of the error view composed with the filtered stylesheets and scripts and no \<^verbatim>\<open>seo\<close>,
  or, when the error view or its markup throws, nothing, without a call on \<^verbatim>\<open>res\<close>.
  No page is rendered: the run is the same whatever the page render and the not-found
  render are.
\<close>

theorem failed_preload_sends_error_document:
  assumes "getPreloadDataPromises env (getRouteFromPath env (Routes env) (path req)) (Storage req)
             (Api (Storage req)) (configureStore createHistory) = Inr promises"
    and "Rejected t e \<in> set promises"
  shows "(\<exists>t' e'. Rejected t' e' \<in> set promises \<and>
           handler env req =
             (case getErrorComponent env e' (configureStore createHistory) of
                Inl err \<Rightarrow> Unhandled_rejection [] err
              | Inr errorView \<Rightarrow>
                  (case renderToStaticMarkup env
                          (Html (currentRouteCss (getModuleByUrl env (Routes env) (path req))
                                   (extractFilesFromAssets env (assets req) ''.css''))
                                (currentRouteJs (extractFilesFromAssets env (assets req) ''.js''))
                                None errorView) of
                     Inl err \<Rightarrow> Unhandled_rejection [] err
                   | Inr html \<Rightarrow> Calls [Res_status 200, Res_send (''<!DOCTYPE html>'' @ html)])))
       \<and> handler (env\<lparr>renderRoutesByUrl := pageRender, renderNotFoundPage := notFoundRender\<rparr>) req
           = handler env req"
proof -
  from Promise_all_rejected [OF assms(2)] obtain t' e'
    where mem: "Rejected t' e' \<in> set promises" and all: "Promise_all promises = Rejection e'"
    by blast
  have "handler env req =
             (case getErrorComponent env e' (configureStore createHistory) of
                Inl err \<Rightarrow> Unhandled_rejection [] err
              | Inr errorView \<Rightarrow>
                  (case renderToStaticMarkup env
                          (Html (currentRouteCss (getModuleByUrl env (Routes env) (path req))
                                   (extractFilesFromAssets env (assets req) ''.css''))
                                (currentRouteJs (extractFilesFromAssets env (assets req) ''.js''))
                                None errorView) of
                     Inl err \<Rightarrow> Unhandled_rejection [] err
                   | Inr html \<Rightarrow> Calls [Res_status 200, Res_send (''<!DOCTYPE html>'' @ html)]))"
    using assms(1) all
    by (simp add: handler_def Let_def catch_block_200 split: sum.splits)
  moreover have "handler (env\<lparr>renderRoutesByUrl := pageRender, renderNotFoundPage := notFoundRender\<rparr>) req
           = handler env req"
    using assms(1) all
    by (simp add: handler_def Let_def catch_block_ignores_page_renders)
  ultimately show ?thesis using mem by blast
qed

text \<open>
The same at a chain with SEO details and one rejected promise among two.
\<close>

theorem failed_preload_sends_error_document_witness:
  "handler (demo [\<lparr>pattern = ''/'', seo = Some [''title'' \<mapsto> ''Home'']\<rparr>]
              (Inr [Fulfilled, Rejected 3 (Thrown True ''boom'' None)]) id) demo_request
     = Calls [Res_status 200,
              Res_send ''<!DOCTYPE html>/css/main.css/css/mod-home.css;/js/main.js;no seo;Error 500'']"
  using failed_preload_sends_error_document
    [of "demo [\<lparr>pattern = ''/'', seo = Some [''title'' \<mapsto> ''Home'']\<rparr>]
              (Inr [Fulfilled, Rejected 3 (Thrown True ''boom'' None)]) id" demo_request
        "[Fulfilled, Rejected 3 (Thrown True ''boom'' None)]" 3 "Thrown True ''boom'' None"]
  by (simp add: demo_def demo_shell_def demo_request_def getErrorComponent_def or_default_def
        status_text_def number_text_def currentRouteCss_def currentRouteJs_def fileName_def
        pop_def startsWith_def decimal.simps)

text \<open>
  C6 (as amended). The stylesheet filter excludes exactly the stylesheets whose file
  name starts with \<^verbatim>\<open>mod-\<close> and does not contain the resolved module identifier; the
  script filter excludes exactly the scripts whose file name starts with \<^verbatim>\<open>mod-\<close>,
  those of the resolved module included, or with \<^verbatim>\<open>service-worker.js\<close>. Both keep the
  order of the input sequence.
\<close>

theorem asset_filters:
  "currentRouteCss module allCss
     = filter (\<lambda>p. \<not> (prefix ''mod-'' (fileName p) \<and> \<not> sublist module (fileName p))) allCss
   \<and> currentRouteJs allJs
     = filter (\<lambda>p. \<not> prefix ''mod-'' (fileName p)
                  \<and> \<not> prefix ''service-worker.js'' (fileName p)) allJs
   \<and> subseq (currentRouteCss module allCss) allCss
   \<and> subseq (currentRouteJs allJs) allJs"
  by (simp add: currentRouteCss_def currentRouteJs_def startsWith_prefix indexOf_minus_one_iff)

text \<open>
  C6 as stated fails: the script of the resolved module is not retained. With the
  module \<^verbatim>\<open>home\<close> resolved, its stylesheet is kept and its script is dropped.
\<close>

theorem module_script_excluded_counterexample:
  "currentRouteCss ''home'' [''/css/main.css'', ''/css/mod-home.css'']
     = [''/css/main.css'', ''/css/mod-home.css'']
   \<and> currentRouteJs [''/js/main.js'', ''/js/mod-home.js''] = [''/js/main.js'']"
  by (simp add: currentRouteCss_def currentRouteJs_def fileName_def pop_def startsWith_def)




text \<open>
  C9. When the resolved module identifier is the empty string, the stylesheet filter
  excludes nothing: \<open>indexOf\<close> finds the empty string at position 0 of every file name,
  so the test \<^verbatim>\<open>fileName.indexOf(mod) === -1\<close> fails for every stylesheet, the
  \<^verbatim>\<open>mod-\<close> ones included.
\<close>

theorem empty_module_keeps_every_stylesheet: "currentRouteCss [] allCss = allCss"
  by (simp add: currentRouteCss_def indexOf_empty)

text \<open>
  C10. A request for the manifest leaves the shared configuration with \<^verbatim>\<open>pwa.icons\<close>
  set to the fixed list of icons (overwritten where it stood, or added after the other
  properties) and with everything else as it was: the rest of the configuration and
  every other property of \<^verbatim>\<open>pwa\<close>. The value written does not depend on the
  configuration, so a second request writes the same and answers the same. The body
  sent is the serialization of the updated \<^verbatim>\<open>pwa\<close> object.
\<close>

theorem manifest_sets_icons_on_shared_config:
  "fst (manifest require stringify config)
     = config\<lparr>pwa := AList.update ''icons'' (icons require) (pwa config)\<rparr>
   \<and> config.more (fst (manifest require stringify config)) = config.more config
   \<and> map_of (pwa (fst (manifest require stringify config)))
     = (map_of (pwa config))(''icons'' \<mapsto> icons require)
   \<and> map fst (pwa (fst (manifest require stringify config)))
     = (if ''icons'' \<in> set (map fst (pwa config)) then map fst (pwa config)
        else map fst (pwa config) @ [''icons''])
   \<and> manifest require stringify (fst (manifest require stringify config))
     = manifest require stringify config
   \<and> express 200 (snd (manifest require stringify config))
     = [Document 200 (stringify (JObject (pwa (fst (manifest require stringify config)))))]"
  by (simp add: manifest_def Let_def lodash_set_def update_conv' update_keys invalid_status_def
        without_body_def)

end
